theory Spec2Isabelle
  imports Main "HOL-Library.Sublist"
begin

section \<open>pyocd/board/board.py: the Board class\<close>

text \<open>
  The module binds a debug session to a target. Its collaborators (the session, the
  probe, the target, the delegate, the target registry \<^verbatim>\<open>TARGET\<close> and the pack
  loaders of \<^verbatim>\<open>pack_target\<close>) live in other modules; the model takes their
  behaviour as data: a fallible operation is a function on an external hardware state
  \<open>'w\<close> that returns the exception it raised, if any, with the new state. Every call
  of a collaborator and every record handed to the logger \<^verbatim>\<open>log\<close> is appended to
  a trace, so that the order of the calls can be stated. The delegate's hooks are
  called with \<^verbatim>\<open>board=self\<close>, so a hook is a function on the board and the hardware
  state.
\<close>

subsection \<open>Values, exceptions, log records\<close>

text \<open>The values a session option can hold.\<close>

datatype pyval = PNone | PBool bool | PInt int | PStr string | PList "pyval list"

text \<open>
  The exceptions the module tells apart: \<^verbatim>\<open>KeyError\<close> (caught at line 53),
  \<^verbatim>\<open>exceptions.TargetSupportError\<close> (raised at line 54) and
  \<^verbatim>\<open>AttributeError\<close> (an attribute read on \<^verbatim>\<open>None\<close>); every other
  exception a collaborator raises is \<open>OtherError\<close>.
\<close>

datatype exn =
    KeyError string
  | TargetSupportError string
  | AttributeError string
  | OtherError string

datatype level = DEBUG | INFO | WARNING | ERROR

text \<open>
  A trace entry: a record of the logger (level, message, and the exception attached by
  \<^verbatim>\<open>exc_info\<close>), or the call of a collaborator with its argument and the
  exception it raised (\<open>None\<close> when it returned).
\<close>

datatype callee =
    Populate_targets_from_pack pyval
  | Populate_target string
  | Construct string
  | Will_connect
  | Target_init
  | Did_connect
  | Disconnect pyval

datatype event =
    Log level string "exn option"
  | Call callee "exn option"

subsection \<open>Collaborators\<close>

type_synonym 'w op = "'w \<Rightarrow> exn option \<times> 'w"

record 'w target =
  t_init :: "'w op"
  t_disconnect :: "pyval \<Rightarrow> 'w op"

record probe =
  probe_unique_id :: string
  vendor_name :: string
  product_name :: string

text \<open>
  Objects held by reference are named by an address. The session holds its delegate, if
  any, by reference.
\<close>

type_synonym ref = nat

record session_obj =
  options :: "string \<rightharpoonup> pyval"
  probe :: "probe option"
  session_delegate :: "ref option"
  log_tracebacks :: bool

text \<open>\<^verbatim>\<open>TARGET\<close>: a dict from target type names to target classes.\<close>

type_synonym 'w registry = "string \<rightharpoonup> (session_obj \<Rightarrow> exn + 'w target)"

text \<open>
  The two pack loaders of \<^verbatim>\<open>pack_target\<close> mutate \<^verbatim>\<open>TARGET\<close>; each is a
  parameter: from its argument and the registry to the exception raised, if any, and the
  registry it leaves.
\<close>

record 'w pack_target =
  populate_targets_from_pack :: "pyval \<Rightarrow> 'w registry \<Rightarrow> exn option \<times> 'w registry"
  populate_target :: "string \<Rightarrow> 'w registry \<Rightarrow> exn option \<times> 'w registry"

record 'w world =
  TARGET :: "'w registry"
  hw :: 'w
  trace :: "event list"

definition emit :: "event \<Rightarrow> 'w world \<Rightarrow> 'w world" where
  "emit e w = w\<lparr>trace := trace w @ [e]\<rparr>"

definition call :: "callee \<Rightarrow> 'w op \<Rightarrow> 'w world \<Rightarrow> exn option \<times> 'w world" where
  "call c f w = (case f (hw w) of (r, h) \<Rightarrow> (r, (emit (Call c r) w)\<lparr>hw := h\<rparr>))"

definition call_pack ::
  "callee \<Rightarrow> ('w registry \<Rightarrow> exn option \<times> 'w registry) \<Rightarrow> 'w world \<Rightarrow> exn option \<times> 'w world" where
  "call_pack c f w =
     (case f (TARGET w) of (r, reg) \<Rightarrow> (r, (emit (Call c r) w)\<lparr>TARGET := reg\<rparr>))"

text \<open>The events a call appended to the trace: those after the first \<open>n\<close>.\<close>

definition new_events :: "'w world \<Rightarrow> 'w world \<Rightarrow> event list" where
  "new_events w w' = drop (length (trace w)) (trace w')"

subsection \<open>The board\<close>

text \<open>
  The fields \<^verbatim>\<open>_session\<close>, \<^verbatim>\<open>_target_type\<close>, \<^verbatim>\<open>_test_binary\<close>,
  \<^verbatim>\<open>_delegate\<close>, \<^verbatim>\<open>_inited\<close> and \<^verbatim>\<open>target\<close>. The parent and child links
  of \<^verbatim>\<open>GraphNode\<close> are not modelled.
\<close>

record 'w board =
  p_session :: session_obj
  p_target_type :: string
  p_test_binary :: pyval
  p_delegate :: "ref option"
  p_inited :: bool
  target :: "'w target"

text \<open>
  A delegate is any object; \<^verbatim>\<open>hasattr(delegate, 'will_connect')\<close> is the field
  being \<open>Some\<close>. A hook is called with \<^verbatim>\<open>board=self\<close>: it may read and assign
  the fields of the board, call its methods, and act on the hardware. What a hook does
  shows as the board and the hardware state it leaves and the exception it raises; the
  trace lists the calls made by the method of the board itself. The objects behind the
  references are a parameter of \<open>init\<close>; their attributes do not change during a call.
\<close>

type_synonym 'w hook = "'w board \<Rightarrow> 'w \<Rightarrow> exn option \<times> 'w board \<times> 'w"

record 'w delegate_obj =
  will_connect :: "'w hook option"
  did_connect :: "'w hook option"

type_synonym 'w objects = "ref \<Rightarrow> 'w delegate_obj"

definition call_hook ::
  "callee \<Rightarrow> 'w hook \<Rightarrow> 'w board \<Rightarrow> 'w world \<Rightarrow> exn option \<times> 'w board \<times> 'w world" where
  "call_hook c f b w =
     (case f b (hw w) of (r, b', h) \<Rightarrow> (r, b', (emit (Call c r) w)\<lparr>hw := h\<rparr>))"

definition session :: "'w board \<Rightarrow> session_obj" where
  "session b = p_session b"

definition delegate :: "'w board \<Rightarrow> ref option" where
  "delegate b = p_delegate b"

definition target_type :: "'w board \<Rightarrow> string" where
  "target_type b = p_target_type b"

definition test_binary :: "'w board \<Rightarrow> pyval" where
  "test_binary b = p_test_binary b"

subsection \<open>Construction\<close>

text \<open>
  \<^verbatim>\<open>str.lower\<close> on the ASCII strings that name targets: the letters A to Z go to
  a to z, every other character is kept.
\<close>

definition lower_char :: "char \<Rightarrow> char" where
  "lower_char c =
     (case map_of (zip ''ABCDEFGHIJKLMNOPQRSTUVWXYZ'' ''abcdefghijklmnopqrstuvwxyz'') c of
        None \<Rightarrow> c
      | Some d \<Rightarrow> d)"

definition lower :: "string \<Rightarrow> string" where
  "lower s = map lower_char s"

text \<open>The message of the exception raised at lines 54 to 56.\<close>

definition not_recognized :: "string \<Rightarrow> string" where
  "not_recognized t =
     ''Target '' @ [CHR 0x27] @ t @ [CHR 0x27] @ '' not recognized. Use the 'pyocd list --targets' command to see all available targets.''"

text \<open>The warning of lines 63 to 66.\<close>

definition generic_warning :: string where
  "generic_warning =
     ''Generic cortex_m target type is selected; is this intentional? You will be able to debug but not program flash. To set the target type use the '--target' argument or target_type option. Use 'pyocd list --targets' to see available targets.''"

text \<open>
  \<^verbatim>\<open>Board.__init__(self, session, target=None)\<close>, lines 30 to 68. The result is
  the exception that left the constructor, or the board, with the registry and the trace
  as they are at that moment (what the pack loaders added stays). The dict lookup
  \<^verbatim>\<open>TARGET[self._target_type]\<close> raises \<^verbatim>\<open>KeyError\<close> on a missing key, and the
  handler of line 53 also catches a \<^verbatim>\<open>KeyError\<close> raised by the target class itself.
\<close>

definition Board_init ::
  "'w pack_target \<Rightarrow> session_obj \<Rightarrow> string option \<Rightarrow> 'w world \<Rightarrow> (exn + 'w board) \<times> 'w world" where
  "Board_init P sess target_arg w0 =
     (let tgt = (case target_arg of None \<Rightarrow> ''cortex_m'' | Some t \<Rightarrow> t);
          tt = lower tgt;
          tb = (case options sess ''test_binary'' of None \<Rightarrow> PNone | Some v \<Rightarrow> v)
      in case (case options sess ''pack'' of
                 None \<Rightarrow> (None, w0)
               | Some v \<Rightarrow>
                   if v \<noteq> PNone
                   then call_pack (Populate_targets_from_pack v) (populate_targets_from_pack P v) w0
                   else (None, w0)) of
           (Some e, w1) \<Rightarrow> (Inl e, w1)
         | (None, w1) \<Rightarrow>
            (case (if TARGET w1 tt = None
                   then call_pack (Populate_target tgt) (populate_target P tgt) w1
                   else (None, w1)) of
               (Some e, w2) \<Rightarrow> (Inl e, w2)
             | (None, w2) \<Rightarrow>
                (case TARGET w2 tt of
                   None \<Rightarrow> (Inl (TargetSupportError (not_recognized tt)), w2)
                 | Some cls \<Rightarrow>
                    (case cls sess of
                       Inl (KeyError k) \<Rightarrow>
                         (Inl (TargetSupportError (not_recognized tt)),
                          emit (Call (Construct tt) (Some (KeyError k))) w2)
                     | Inl e \<Rightarrow> (Inl e, emit (Call (Construct tt) (Some e)) w2)
                     | Inr t \<Rightarrow>
                         (let w3 = emit (Call (Construct tt) None) w2;
                              w4 = emit (Log INFO (''Target type is '' @ tt) None) w3;
                              w5 = (if tt = ''cortex_m''
                                    then emit (Log WARNING generic_warning None) w4
                                    else w4)
                          in (Inr \<lparr>p_session = sess, p_target_type = tt, p_test_binary = tb,
                                    p_delegate = None, p_inited = False, target = t\<rparr>,
                              w5))))))"

subsection \<open>init\<close>

text \<open>
  \<^verbatim>\<open>Board.init(self)\<close>, lines 70 to 86, over the delegate objects \<open>D\<close>. An
  exception of a hook or of \<^verbatim>\<open>target.init\<close> leaves the method at once, with the
  board as it is then. Each statement reads \<^verbatim>\<open>self\<close> anew: the target initialised
  is the one the board holds after the pre-connect hook, and line 85 looks the delegate
  up again on the board that has the flag set.
\<close>

definition init ::
  "'w objects \<Rightarrow> 'w board \<Rightarrow> 'w world \<Rightarrow> exn option \<times> 'w board \<times> 'w world" where
  "init D b0 w0 =
     (let b = (if delegate b0 = None \<and> session_delegate (session b0) \<noteq> None
               then b0\<lparr>p_delegate := session_delegate (session b0)\<rparr>
               else b0)
      in case (case delegate b of
                 None \<Rightarrow> (None, b, w0)
               | Some d \<Rightarrow>
                   (case will_connect (D d) of
                      None \<Rightarrow> (None, b, w0)
                    | Some f \<Rightarrow> call_hook Will_connect f b w0)) of
           (Some e, b1, w1) \<Rightarrow> (Some e, b1, w1)
         | (None, b1, w1) \<Rightarrow>
            (case call Target_init (t_init (target b1)) w1 of
               (Some e, w2) \<Rightarrow> (Some e, b1, w2)
             | (None, w2) \<Rightarrow>
                (let b2 = b1\<lparr>p_inited := True\<rparr>
                 in case delegate b2 of
                      None \<Rightarrow> (None, b2, w2)
                    | Some d \<Rightarrow>
                        (case did_connect (D d) of
                           None \<Rightarrow> (None, b2, w2)
                         | Some f \<Rightarrow> call_hook Did_connect f b2 w2))))"

subsection \<open>uninit\<close>

text \<open>
  Lines 93 to 95, the body of the \<^verbatim>\<open>try\<close>: the exception of
  \<^verbatim>\<open>target.disconnect\<close> leaves the block before the flag is cleared.
\<close>

definition uninit_try :: "'w board \<Rightarrow> 'w world \<Rightarrow> exn option \<times> 'w board \<times> 'w world" where
  "uninit_try b w =
     (let resume = (case options (session b) ''resume_on_disconnect'' of
                      None \<Rightarrow> PBool True | Some v \<Rightarrow> v)
      in case call (Disconnect resume) (t_disconnect (target b) resume) w of
           (Some e, w') \<Rightarrow> (Some e, b, w')
         | (None, w') \<Rightarrow> (None, b\<lparr>p_inited := False\<rparr>, w'))"

text \<open>Lines 88 to 97; the bare \<^verbatim>\<open>except:\<close> handles every exception of the block.\<close>

definition uninit :: "'w board \<Rightarrow> 'w world \<Rightarrow> exn option \<times> 'w board \<times> 'w world" where
  "uninit b w =
     (if p_inited b then
        (case uninit_try b (emit (Log DEBUG ''uninit board %s'' None) w) of
           (Some e, b', w') \<Rightarrow>
             (None, b',
              emit (Log ERROR ''link exception during target disconnect:''
                      (if log_tracebacks (p_session b') then Some e else None)) w')
         | (None, b', w') \<Rightarrow> (None, b', w'))
      else (None, b, w))"

subsection \<open>Properties of the board\<close>

text \<open>
  \<^verbatim>\<open>unique_id\<close>, \<^verbatim>\<open>name\<close> and \<^verbatim>\<open>description\<close>, lines 111 to 130. Reading
  an attribute of \<^verbatim>\<open>session.probe\<close> raises \<^verbatim>\<open>AttributeError\<close> when the
  session has no probe.
\<close>

definition unique_id :: "'w board \<Rightarrow> exn + string" where
  "unique_id b =
     (case probe (session b) of
        None \<Rightarrow> Inl (AttributeError ''unique_id'')
      | Some p \<Rightarrow> Inr (probe_unique_id p))"

definition name :: "'w board \<Rightarrow> string" where
  "name b = ''generic''"

definition description :: "'w board \<Rightarrow> exn + string" where
  "description b =
     (case probe (session b) of
        None \<Rightarrow> Inl (AttributeError ''vendor_name'')
      | Some p \<Rightarrow>
          Inr (''Generic board via '' @ vendor_name p @ '' '' @ product_name p
               @ '' ['' @ target_type b @ '']''))"

subsection \<open>Observations on the trace\<close>

text \<open>Lines 73 and 74: a board without a delegate adopts the session's.\<close>

definition adopt :: "'w board \<Rightarrow> 'w board" where
  "adopt b =
     (if delegate b = None \<and> session_delegate (session b) \<noteq> None
      then b\<lparr>p_delegate := session_delegate (session b)\<rparr>
      else b)"

text \<open>
  The hook that the conditions of lines 77 and 85 select on a board:
  \<^verbatim>\<open>(self.delegate is not None) and hasattr(self.delegate, 'will_connect')\<close>, and the
  same for \<^verbatim>\<open>did_connect\<close>.
\<close>

definition will_hook :: "'w objects \<Rightarrow> 'w board \<Rightarrow> 'w hook option" where
  "will_hook D b = (case delegate b of None \<Rightarrow> None | Some d \<Rightarrow> will_connect (D d))"

definition did_hook :: "'w objects \<Rightarrow> 'w board \<Rightarrow> 'w hook option" where
  "did_hook D b = (case delegate b of None \<Rightarrow> None | Some d \<Rightarrow> did_connect (D d))"

text \<open>
  The dispatcher as the specification words it (section 4.3): invoke the hook only if
  the delegate is there and exposes it; otherwise do nothing.
\<close>

definition dispatch :: "'w hook option \<Rightarrow> 'w hook" where
  "dispatch h b s = (case h of None \<Rightarrow> (None, b, s) | Some f \<Rightarrow> f b s)"

text \<open>The dispatch of lines 77 to 78 and 85 to 86, with the call recorded on the trace.\<close>

definition traced ::
  "callee \<Rightarrow> 'w hook option \<Rightarrow> 'w board \<Rightarrow> 'w world \<Rightarrow> exn option \<times> 'w board \<times> 'w world" where
  "traced c h b w = (case h of None \<Rightarrow> (None, b, w) | Some f \<Rightarrow> call_hook c f b w)"

text \<open>A hook that leaves the lifecycle flag as it finds it, and objects whose hooks all do.\<close>

definition keeps_flag :: "'w hook \<Rightarrow> bool" where
  "keeps_flag f = (\<forall>b s. p_inited (fst (snd (f b s))) = p_inited b)"

definition hooks_keep_flag :: "'w objects \<Rightarrow> bool" where
  "hooks_keep_flag D =
     (\<forall>d f. (will_connect (D d) = Some f \<or> did_connect (D d) = Some f) \<longrightarrow> keeps_flag f)"

text \<open>The records of the logger at level \<^verbatim>\<open>WARNING\<close>.\<close>

fun is_warning :: "event \<Rightarrow> bool" where
  "is_warning (Log WARNING m x) = True"
| "is_warning e = False"

subsection \<open>Sample collaborators\<close>

text \<open>
  Concrete sessions, targets, delegates and pack loaders, on which the properties below
  are instantiated. The hardware state is a counter of the target operations performed.
\<close>

definition acme_probe :: probe where
  "acme_probe = \<lparr>probe_unique_id = ''0001'', vendor_name = ''ACME'', product_name = ''Probe1''\<rparr>"

definition plain_session :: session_obj where
  "plain_session =
     \<lparr>options = Map.empty, probe = Some acme_probe, session_delegate = None,
      log_tracebacks = False\<rparr>"

text \<open>A target whose operations always return.\<close>

definition steady_target :: "nat target" where
  "steady_target =
     \<lparr>t_init = (\<lambda>h. (None, Suc h)), t_disconnect = (\<lambda>r h. (None, Suc h))\<rparr>"

text \<open>A target whose disconnect raises on every call.\<close>

definition stuck_target :: "nat target" where
  "stuck_target =
     \<lparr>t_init = (\<lambda>h. (None, Suc h)),
      t_disconnect = (\<lambda>r h. (Some (OtherError ''link lost''), Suc h))\<rparr>"

text \<open>A target whose init raises.\<close>

definition dead_target :: "nat target" where
  "dead_target =
     \<lparr>t_init = (\<lambda>h. (Some (OtherError ''no link''), h)),
      t_disconnect = (\<lambda>r h. (None, Suc h))\<rparr>"

text \<open>
  Delegates: one with both hooks, which act on the hardware state; one whose
  \<^verbatim>\<open>did_connect\<close> raises; one whose \<^verbatim>\<open>did_connect\<close> calls
  \<^verbatim>\<open>board.uninit()\<close> and then raises; one whose \<^verbatim>\<open>will_connect\<close> assigns
  the flag of the board; one without hooks.
\<close>

definition both_hooks :: "nat delegate_obj" where
  "both_hooks =
     \<lparr>will_connect = Some (\<lambda>b h. (None, b, h + 10)),
      did_connect = Some (\<lambda>b h. (None, b, 2 * h))\<rparr>"

definition raising_did_connect :: "nat delegate_obj" where
  "raising_did_connect =
     \<lparr>will_connect = None,
      did_connect = Some (\<lambda>b h. (Some (OtherError ''hook failed''), b, h))\<rparr>"

definition detaching_did_connect :: "nat delegate_obj" where
  "detaching_did_connect =
     \<lparr>will_connect = None,
      did_connect =
        Some (\<lambda>b h. case uninit b \<lparr>TARGET = Map.empty, hw = h, trace = []\<rparr> of
                       (r, b', w') \<Rightarrow> (Some (OtherError ''hook failed''), b', hw w'))\<rparr>"

definition eager_will_connect :: "nat delegate_obj" where
  "eager_will_connect =
     \<lparr>will_connect = Some (\<lambda>b h. (None, b\<lparr>p_inited := True\<rparr>, h)), did_connect = None\<rparr>"

definition no_hooks :: "nat delegate_obj" where
  "no_hooks = \<lparr>will_connect = None, did_connect = None\<rparr>"

text \<open>The delegate objects, by address.\<close>

definition sample_delegates :: "nat objects" where
  "sample_delegates r =
     (if r = 0 then both_hooks
      else if r = 1 then raising_did_connect
      else if r = 2 then detaching_did_connect
      else if r = 3 then eager_will_connect
      else no_hooks)"

text \<open>Delegate objects whose hooks leave the board as it is.\<close>

definition tame_delegates :: "nat objects" where
  "tame_delegates r = (if r = 0 then both_hooks else if r = 1 then raising_did_connect else no_hooks)"

text \<open>A registry that knows \<^verbatim>\<open>cortex_m\<close> only.\<close>

definition builtin_targets :: "nat registry" where
  "builtin_targets = [''cortex_m'' \<mapsto> (\<lambda>s. Inr steady_target)]"

text \<open>
  Pack loaders: the explicit pack adds nothing; the managed packs hold one device,
  \<^verbatim>\<open>nrf52\<close>, and lower-case the name they are given before they compare it.
\<close>

definition sample_packs :: "nat pack_target" where
  "sample_packs =
     \<lparr>populate_targets_from_pack = (\<lambda>v reg. (None, reg)),
      populate_target =
        (\<lambda>n reg. (None, if lower n = ''nrf52''
                         then reg(''nrf52'' \<mapsto> (\<lambda>s. Inr steady_target)) else reg))\<rparr>"

text \<open>Pack loaders whose explicit pack cannot be read, and a session that names a pack.\<close>

definition broken_packs :: "nat pack_target" where
  "broken_packs =
     \<lparr>populate_targets_from_pack = (\<lambda>v reg. (Some (OtherError ''bad pack''), reg)),
      populate_target = (\<lambda>n reg. (None, reg))\<rparr>"

definition pack_session :: session_obj where
  "pack_session = plain_session\<lparr>options := [''pack'' \<mapsto> PStr ''bad.pack'']\<rparr>"

definition fresh_world :: "nat world" where
  "fresh_world = \<lparr>TARGET = builtin_targets, hw = 0, trace = []\<rparr>"

definition sample_board :: "nat target \<Rightarrow> bool \<Rightarrow> nat board" where
  "sample_board t flag =
     \<lparr>p_session = plain_session, p_target_type = ''nrf52'', p_test_binary = PNone,
      p_delegate = None, p_inited = flag, target = t\<rparr>"

text \<open>A board that holds the delegate at the address \<open>d\<close>.\<close>

definition hooked_board :: "nat target \<Rightarrow> ref \<Rightarrow> nat board" where
  "hooked_board t d = (sample_board t False)\<lparr>p_delegate := Some d\<rparr>"

text \<open>The board that construction without a target type yields on these collaborators.\<close>

definition cortex_board :: "nat board" where
  "cortex_board =
     \<lparr>p_session = plain_session, p_target_type = ''cortex_m'', p_test_binary = PNone,
      p_delegate = None, p_inited = False, target = steady_target\<rparr>"

section \<open>Properties\<close>

subsection \<open>The trace of a call\<close>

lemma trace_call: "call c f w = (r, w') \<Longrightarrow> trace w' = trace w @ [Call c r]"
  by (auto simp: call_def emit_def split: prod.splits)

lemma trace_call_pack: "call_pack c f w = (r, w') \<Longrightarrow> trace w' = trace w @ [Call c r]"
  by (auto simp: call_pack_def emit_def split: prod.splits)

lemma lower_cortex_m: "lower ''cortex_m'' = ''cortex_m''"
  by (simp add: lower_def lower_char_def)

subsection \<open>The shape of init\<close>

text \<open>
  \<open>init\<close> is the pre-connect dispatch, the target's init and the post-connect
  dispatch in sequence; \<open>init_unfold\<close> gives its result from the outcomes of the three.
\<close>

lemma will_part:
  "(case delegate b of
      None \<Rightarrow> (None, b, w)
    | Some d \<Rightarrow>
        (case will_connect (D d) of
           None \<Rightarrow> (None, b, w)
         | Some f \<Rightarrow> call_hook Will_connect f b w))
   = traced Will_connect (will_hook D b) b w"
  by (simp add: traced_def will_hook_def split: option.splits)

lemma did_part:
  "(case delegate b of
      None \<Rightarrow> (None, b, w)
    | Some d \<Rightarrow>
        (case did_connect (D d) of
           None \<Rightarrow> (None, b, w)
         | Some f \<Rightarrow> call_hook Did_connect f b w))
   = traced Did_connect (did_hook D b) b w"
  by (simp add: traced_def did_hook_def split: option.splits)

lemma init_alt:
  "init D b w =
     (case traced Will_connect (will_hook D (adopt b)) (adopt b) w of
        (Some e, b1, w1) \<Rightarrow> (Some e, b1, w1)
      | (None, b1, w1) \<Rightarrow>
          (case call Target_init (t_init (target b1)) w1 of
             (Some e, w2) \<Rightarrow> (Some e, b1, w2)
           | (None, w2) \<Rightarrow>
               traced Did_connect (did_hook D (b1\<lparr>p_inited := True\<rparr>)) (b1\<lparr>p_inited := True\<rparr>) w2))"
  unfolding init_def Let_def will_part did_part adopt_def ..

lemma traced_dispatch:
  "dispatch h b (hw w) = (r, b', s) \<Longrightarrow>
   traced c h b w = (r, b', w\<lparr>hw := s, trace := trace w @ (if h = None then [] else [Call c r])\<rparr>)"
  by (cases h) (simp_all add: traced_def dispatch_def call_hook_def emit_def)

lemma call_eq:
  "f (hw w) = (r, s) \<Longrightarrow> call c f w = (r, w\<lparr>hw := s, trace := trace w @ [Call c r]\<rparr>)"
  by (simp add: call_def emit_def)

lemma init_unfold:
  assumes d1: "dispatch (will_hook D (adopt b)) (adopt b) (hw w) = (r1, b1, h1)"
    and t: "t_init (target b1) h1 = (r2, h2)"
    and d2: "dispatch (did_hook D (b1\<lparr>p_inited := True\<rparr>)) (b1\<lparr>p_inited := True\<rparr>) h2 = (r3, b3, h3)"
    and pre: "pre = (\<lambda>x. if will_hook D (adopt b) = None then [] else [Call Will_connect x])"
    and post: "post = (\<lambda>x. if did_hook D (b1\<lparr>p_inited := True\<rparr>) = None then [] else [Call Did_connect x])"
  shows "init D b w =
     (if r1 \<noteq> None then (r1, b1, w\<lparr>hw := h1, trace := trace w @ pre r1\<rparr>)
      else if r2 \<noteq> None
        then (r2, b1, w\<lparr>hw := h2, trace := trace w @ pre None @ [Call Target_init r2]\<rparr>)
      else (r3, b3, w\<lparr>hw := h3,
              trace := trace w @ pre None @ [Call Target_init None] @ post r3\<rparr>))"
proof -
  define w1 where "w1 = w\<lparr>hw := h1, trace := trace w @ pre r1\<rparr>"
  define w2 where "w2 = w\<lparr>hw := h2, trace := trace w @ pre r1 @ [Call Target_init r2]\<rparr>"
  define w3 where "w3 = w\<lparr>hw := h3, trace := trace w @ pre r1 @ [Call Target_init r2] @ post r3\<rparr>"
  define bT where "bT = b1\<lparr>p_inited := True\<rparr>"
  have s1: "traced Will_connect (will_hook D (adopt b)) (adopt b) w = (r1, b1, w1)"
    using traced_dispatch [OF d1, of Will_connect] by (simp add: pre w1_def)
  have t': "t_init (target b1) (hw w1) = (r2, h2)" using t by (simp add: w1_def)
  have s2: "call Target_init (t_init (target b1)) w1 = (r2, w2)"
    using call_eq [where f = "t_init (target b1)" and w = w1 and c = Target_init, OF t']
    by (simp add: w1_def w2_def)
  have d2': "dispatch (did_hook D bT) bT (hw w2) = (r3, b3, h3)"
    using d2 by (simp add: w2_def bT_def)
  have s3: "traced Did_connect (did_hook D bT) bT w2 = (r3, b3, w3)"
    using traced_dispatch [OF d2', of Did_connect] by (simp add: post w2_def w3_def bT_def)
  have alt: "init D b w =
     (case (r1, b1, w1) of
        (Some e, b1, w1) \<Rightarrow> (Some e, b1, w1)
      | (None, b1, w1) \<Rightarrow>
          (case call Target_init (t_init (target b1)) w1 of
             (Some e, w2) \<Rightarrow> (Some e, b1, w2)
           | (None, w2) \<Rightarrow>
               traced Did_connect (did_hook D (b1\<lparr>p_inited := True\<rparr>)) (b1\<lparr>p_inited := True\<rparr>) w2))"
    unfolding init_alt s1 ..
  show ?thesis
  proof (cases r1)
    case (Some e)
    then show ?thesis unfolding alt by (simp add: w1_def)
  next
    case None
    show ?thesis
    proof (cases r2)
      case (Some e)
      then show ?thesis unfolding alt using None s2 by (simp add: w2_def)
    next
      case r2: None
      show ?thesis unfolding alt using None r2 s2 s3 by (simp add: w3_def bT_def)
    qed
  qed
qed

text \<open>The two ways \<open>uninit\<close> can end on an initialised board.\<close>

lemma uninit_shape:
  assumes "p_inited b" and "uninit b w = (r, b', w')"
    and "resume = (case options (session b) ''resume_on_disconnect'' of
                     None \<Rightarrow> PBool True | Some v \<Rightarrow> v)"
  shows "r = None \<and>
      ((new_events w w' = [Log DEBUG ''uninit board %s'' None, Call (Disconnect resume) None]
          \<and> b' = b\<lparr>p_inited := False\<rparr>)
       \<or> (\<exists>e. new_events w w' =
               [Log DEBUG ''uninit board %s'' None, Call (Disconnect resume) (Some e),
                Log ERROR ''link exception during target disconnect:''
                  (if log_tracebacks (session b) then Some e else None)]
             \<and> b' = b))"
  using assms
  by (auto simp: uninit_def uninit_try_def Let_def emit_def session_def new_events_def
      split: option.splits prod.splits if_splits dest!: trace_call)

lemmas fixture_defs = sample_board_def steady_target_def stuck_target_def fresh_world_def
  plain_session_def builtin_targets_def sample_packs_def hooked_board_def cortex_board_def
  dead_target_def broken_packs_def pack_session_def

text \<open>A board leaves its constructor with the flag false.\<close>

lemma Board_init_not_inited:
  "Board_init P sess ta w = (Inr b, w') \<Longrightarrow> \<not> p_inited b"
  by (auto simp: Board_init_def Let_def
      split: option.splits prod.splits if_splits sum.splits exn.splits)

lemma new_events_upd:
  "new_events w (w\<lparr>hw := h, trace := trace w @ evs\<rparr>) = evs"
  by (simp add: new_events_def)

lemma dispatch_None: "dispatch None b s = (None, b, s)"
  by (simp add: dispatch_def)

lemma dispatch_keeps_flag:
  assumes "dispatch h bq s = (rq, bq', sq)"
    and "h = None \<or> (\<exists>f. h = Some f \<and> keeps_flag f)"
  shows "p_inited bq' = p_inited bq"
proof (cases h)
  case None
  with assms(1) show ?thesis by (simp add: dispatch_def)
next
  case (Some f)
  with assms(2) have "keeps_flag f" by simp
  then have "p_inited (fst (snd (f bq s))) = p_inited bq" by (simp add: keeps_flag_def)
  moreover have "f bq s = (rq, bq', sq)" using assms(1) Some by (simp add: dispatch_def)
  ultimately show ?thesis by simp
qed

lemmas hook_defs = dispatch_def will_hook_def did_hook_def adopt_def delegate_def session_def
  sample_delegates_def tame_delegates_def both_hooks_def raising_did_connect_def
  detaching_did_connect_def eager_will_connect_def no_hooks_def

lemma tame_keep_flag: "hooks_keep_flag tame_delegates"
  by (auto simp: hooks_keep_flag_def keeps_flag_def tame_delegates_def both_hooks_def
      raising_did_connect_def no_hooks_def split: if_splits)

subsection \<open>The claims\<close>

text \<open>
  C1 (as amended). A board leaves its constructor with the flag false. For a delegate
  whose hooks leave the flag as they find it, a call of init() on a board whose flag is
  false leaves it true exactly when the target's init was called and returned without
  an exception. A call of uninit() on a board whose flag is true leaves it false
  exactly when the target's disconnect was called and returned without an exception;
  when disconnect raises, the flag stays true.
\<close>

theorem inited_flag_lifecycle:
  "(Board_init P sess ta w0 = (Inr b0, w0') \<longrightarrow> \<not> p_inited b0)
   \<and> (\<not> p_inited b \<and> hooks_keep_flag D \<and> init D b w = (r, b', w')
        \<longrightarrow> (p_inited b' \<longleftrightarrow> Call Target_init None \<in> set (new_events w w')))
   \<and> (p_inited b2 \<and> uninit b2 w2 = (r2, b2', w2')
        \<longrightarrow> (\<not> p_inited b2' \<longleftrightarrow> (\<exists>v. Call (Disconnect v) None \<in> set (new_events w2 w2'))))"
proof (intro conjI impI)
  assume "Board_init P sess ta w0 = (Inr b0, w0')"
  then show "\<not> p_inited b0" by (rule Board_init_not_inited)
next
  assume a: "\<not> p_inited b \<and> hooks_keep_flag D \<and> init D b w = (r, b', w')"
  then have i: "init D b w = (r, b', w')" and n: "\<not> p_inited b" and hk: "hooks_keep_flag D"
    by simp_all
  obtain r1 b1 h1 where d1: "dispatch (will_hook D (adopt b)) (adopt b) (hw w) = (r1, b1, h1)"
    by (cases "dispatch (will_hook D (adopt b)) (adopt b) (hw w)") auto
  obtain q2 h2 where t: "t_init (target b1) h1 = (q2, h2)"
    by (cases "t_init (target b1) h1") auto
  define bT where "bT = b1\<lparr>p_inited := True\<rparr>"
  obtain r3 b3 h3 where d2: "dispatch (did_hook D bT) bT h2 = (r3, b3, h3)"
    by (cases "dispatch (did_hook D bT) bT h2") auto
  have wk: "will_hook D (adopt b) = None \<or> (\<exists>f. will_hook D (adopt b) = Some f \<and> keeps_flag f)"
    using hk by (auto simp: will_hook_def hooks_keep_flag_def split: option.splits)
  have dk: "did_hook D bT = None \<or> (\<exists>f. did_hook D bT = Some f \<and> keeps_flag f)"
    using hk by (auto simp: did_hook_def hooks_keep_flag_def split: option.splits)
  have f1: "\<not> p_inited b1" using dispatch_keeps_flag [OF d1 wk] n by (simp add: adopt_def)
  have f3: "p_inited b3" using dispatch_keeps_flag [OF d2 dk] by (simp add: bT_def)
  from init_unfold [OF d1 t d2 [unfolded bT_def] refl refl] i f1 f3
  show "p_inited b' \<longleftrightarrow> Call Target_init None \<in> set (new_events w w')"
    by (auto simp: new_events_def split: if_splits)
next
  assume a: "p_inited b2 \<and> uninit b2 w2 = (r2, b2', w2')"
  then have u: "uninit b2 w2 = (r2, b2', w2')" and p: "p_inited b2" by simp_all
  from uninit_shape [OF p u refl] p
  show "\<not> p_inited b2' \<longleftrightarrow> (\<exists>v. Call (Disconnect v) None \<in> set (new_events w2 w2'))"
    by auto
qed

theorem inited_flag_lifecycle_witness:
  "Board_init sample_packs plain_session None fresh_world =
     (Inr cortex_board,
      \<lparr>TARGET = builtin_targets, hw = 0,
       trace = [Call (Construct ''cortex_m'') None, Log INFO ''Target type is cortex_m'' None,
                Log WARNING generic_warning None]\<rparr>)
   \<and> \<not> p_inited cortex_board
   \<and> hooks_keep_flag tame_delegates
   \<and> init tame_delegates cortex_board fresh_world =
       (None, cortex_board\<lparr>p_inited := True\<rparr>,
        \<lparr>TARGET = builtin_targets, hw = 1, trace = [Call Target_init None]\<rparr>)
   \<and> p_inited (cortex_board\<lparr>p_inited := True\<rparr>)
   \<and> uninit (cortex_board\<lparr>p_inited := True\<rparr>) fresh_world =
       (None, cortex_board,
        \<lparr>TARGET = builtin_targets, hw = 1,
         trace = [Log DEBUG ''uninit board %s'' None, Call (Disconnect (PBool True)) None]\<rparr>)"
proof -
  let ?w1 = "\<lparr>TARGET = builtin_targets, hw = 0::nat,
       trace = [Call (Construct ''cortex_m'') None, Log INFO ''Target type is cortex_m'' None,
                Log WARNING generic_warning None]\<rparr>"
  let ?w2 = "\<lparr>TARGET = builtin_targets, hw = 1::nat, trace = [Call Target_init None]\<rparr>"
  let ?w3 = "\<lparr>TARGET = builtin_targets, hw = 1::nat,
         trace = [Log DEBUG ''uninit board %s'' None, Call (Disconnect (PBool True)) None]\<rparr>"
  have h1: "Board_init sample_packs plain_session None fresh_world = (Inr cortex_board, ?w1)"
    by (simp add: Board_init_def Let_def lower_cortex_m emit_def cortex_board_def
        fresh_world_def builtin_targets_def plain_session_def)
  have h2: "init tame_delegates cortex_board fresh_world
              = (None, cortex_board\<lparr>p_inited := True\<rparr>, ?w2)"
    by (simp add: init_def Let_def call_def emit_def delegate_def session_def cortex_board_def
        fresh_world_def plain_session_def steady_target_def)
  have h3: "uninit (cortex_board\<lparr>p_inited := True\<rparr>) fresh_world = (None, cortex_board, ?w3)"
    by (simp add: uninit_def uninit_try_def call_def emit_def session_def cortex_board_def
        fresh_world_def plain_session_def steady_target_def)
  have n: "\<not> p_inited cortex_board" by (simp add: cortex_board_def)
  from inited_flag_lifecycle [of sample_packs plain_session None fresh_world cortex_board ?w1
      cortex_board tame_delegates fresh_world None "cortex_board\<lparr>p_inited := True\<rparr>" ?w2
      "cortex_board\<lparr>p_inited := True\<rparr>" fresh_world None cortex_board ?w3]
    h1 h2 h3 n tame_keep_flag
  show ?thesis by simp
qed

text \<open>
  C1 as stated fails twice. On an initialised board whose target's disconnect raises,
  uninit() invokes disconnect and the flag is still true afterwards. And a hook is
  handed the board: with a pre-connect hook that assigns the flag and a target whose
  init raises, the flag is true although the target-initialisation step never
  completed.
\<close>

theorem inited_flag_counterexample:
  "p_inited (sample_board stuck_target True)
   \<and> Call (Disconnect (PBool True)) (Some (OtherError ''link lost''))
       \<in> set (new_events fresh_world (snd (snd (uninit (sample_board stuck_target True) fresh_world))))
   \<and> p_inited (fst (snd (uninit (sample_board stuck_target True) fresh_world)))
   \<and> \<not> p_inited (hooked_board dead_target 3)
   \<and> new_events fresh_world (snd (snd (init sample_delegates (hooked_board dead_target 3) fresh_world)))
       = [Call Will_connect None, Call Target_init (Some (OtherError ''no link''))]
   \<and> p_inited (fst (snd (init sample_delegates (hooked_board dead_target 3) fresh_world)))"
  by (simp add: uninit_def uninit_try_def init_def Let_def call_hook_def call_def emit_def
      new_events_def hook_defs fixture_defs)

text \<open>
  C2 (as amended). For every board whose probe has vendor name V and product name P and
  whose target type is T, the description is the string "Generic board via V P [T]".
\<close>

theorem description_format:
  "probe (session b) = Some p \<Longrightarrow>
   description b =
     Inr (''Generic board via '' @ vendor_name p @ '' '' @ product_name p
          @ '' ['' @ target_type b @ '']'')"
  by (simp add: description_def)

theorem description_format_witness:
  "probe (session (sample_board steady_target False)) = Some acme_probe \<and>
   description (sample_board steady_target False) = Inr ''Generic board via ACME Probe1 [nrf52]''"
  using description_format [of "sample_board steady_target False" acme_probe]
  by (simp add: sample_board_def session_def plain_session_def acme_probe_def target_type_def)

text \<open>
  C2 as stated fails: with vendor ACME, product Probe1 and target type nrf52 the
  description is not "ACME Probe1 [nrf52]".
\<close>

theorem description_acme_counterexample:
  "vendor_name acme_probe = ''ACME'' \<and> product_name acme_probe = ''Probe1'' \<and>
   probe (session (sample_board steady_target False)) = Some acme_probe \<and>
   target_type (sample_board steady_target False) = ''nrf52'' \<and>
   description (sample_board steady_target False) \<noteq> Inr ''ACME Probe1 [nrf52]''"
  by (simp add: sample_board_def session_def plain_session_def acme_probe_def target_type_def
      description_def)

text \<open>
  C5. For every requested identifier (cortex_m when none is given) whose lower-cased
  form is absent from the registry that the construction leaves, no pack loader having
  raised: the managed packs were queried, the construction fails with the
  target-not-found error whose message names the lower-cased identifier, and no board
  is produced.
\<close>

theorem unknown_target_not_found:
  assumes "Board_init P sess ta w = (r, w')"
    and "tgt = (case ta of None \<Rightarrow> ''cortex_m'' | Some t \<Rightarrow> t)"
    and "TARGET w' (lower tgt) = None"
    and "\<forall>c e. Call c (Some e) \<notin> set (new_events w w')"
  shows "r = Inl (TargetSupportError (not_recognized (lower tgt))) \<and>
         Call (Populate_target tgt) None \<in> set (new_events w w')"
  using assms
  by (auto simp: Board_init_def Let_def new_events_def emit_def
      split: option.splits prod.splits if_splits sum.splits exn.splits dest!: trace_call_pack)

theorem unknown_target_not_found_witness:
  "Board_init sample_packs plain_session (Some ''STM32'') fresh_world =
     (Inl (TargetSupportError (not_recognized ''stm32'')),
      \<lparr>TARGET = builtin_targets, hw = 0, trace = [Call (Populate_target ''STM32'') None]\<rparr>)
   \<and> lower ''STM32'' = ''stm32''
   \<and> TARGET \<lparr>TARGET = builtin_targets, hw = 0::nat,
              trace = [Call (Populate_target ''STM32'') None]\<rparr> ''stm32'' = None
   \<and> new_events fresh_world
        \<lparr>TARGET = builtin_targets, hw = 0, trace = [Call (Populate_target ''STM32'') None]\<rparr>
      = [Call (Populate_target ''STM32'') None]"
proof -
  let ?w1 = "\<lparr>TARGET = builtin_targets, hw = 0::nat,
              trace = [Call (Populate_target ''STM32'') None]\<rparr>"
  have lo: "lower ''STM32'' = ''stm32''" by (simp add: lower_def lower_char_def)
  have ev: "new_events fresh_world ?w1 = [Call (Populate_target ''STM32'') None]"
    by (simp add: new_events_def fresh_world_def)
  have ab: "TARGET ?w1 (lower ''STM32'') = None" by (simp add: lo builtin_targets_def)
  have h1: "Board_init sample_packs plain_session (Some ''STM32'') fresh_world
              = (Inl (TargetSupportError (not_recognized (lower ''STM32''))), ?w1)"
  proof -
    have "\<forall>c e. Call c (Some e) \<notin> set (new_events fresh_world
             (snd (Board_init sample_packs plain_session (Some ''STM32'') fresh_world)))"
      by (simp add: Board_init_def Let_def lo call_pack_def emit_def new_events_def
          fresh_world_def builtin_targets_def sample_packs_def plain_session_def)
    moreover have "snd (Board_init sample_packs plain_session (Some ''STM32'') fresh_world) = ?w1"
      by (simp add: Board_init_def Let_def lo call_pack_def emit_def
          fresh_world_def builtin_targets_def sample_packs_def plain_session_def)
    ultimately show ?thesis
      using unknown_target_not_found
        [of sample_packs plain_session "Some ''STM32''" fresh_world
            "fst (Board_init sample_packs plain_session (Some ''STM32'') fresh_world)" ?w1
            "''STM32''"] ab
      by (simp add: prod_eq_iff)
  qed
  from h1 lo ab ev show ?thesis by simp
qed

text \<open>
  C6. For every call of init(), with any delegate objects: name the outcome of the
  pre-connect dispatch on the board (with the session's delegate adopted when the board
  has none), of the target's init on the hardware state which that dispatch left, and of
  the post-connect dispatch on the board with the flag set and the hardware state which
  the target's init left. Then init() returns what the first of the three to raise
  returned, or else what the post-connect dispatch returned; the calls it made are
  will_connect (when the delegate has it), the target's init, did_connect (when the
  delegate has it), in this order, up to the one that raised; and a hook that the
  delegate lacks does nothing and raises nothing.
\<close>

theorem init_hook_order:
  assumes "dispatch (will_hook D (adopt b)) (adopt b) (hw w) = (r1, b1, h1)"
    and "t_init (target b1) h1 = (r2, h2)"
    and "dispatch (did_hook D (b1\<lparr>p_inited := True\<rparr>)) (b1\<lparr>p_inited := True\<rparr>) h2 = (r3, b3, h3)"
    and "init D b w = (r, b', w')"
  shows "(r, b', hw w', new_events w w') =
           (if r1 \<noteq> None then (r1, b1, h1, [Call Will_connect r1])
            else if r2 \<noteq> None
              then (r2, b1, h2,
                    (if will_hook D (adopt b) = None then [] else [Call Will_connect None])
                    @ [Call Target_init r2])
            else (r3, b3, h3,
                  (if will_hook D (adopt b) = None then [] else [Call Will_connect None])
                  @ [Call Target_init None]
                  @ (if did_hook D (b1\<lparr>p_inited := True\<rparr>) = None then []
                     else [Call Did_connect r3])))
         \<and> (will_hook D (adopt b) = None \<longrightarrow> r1 = None \<and> b1 = adopt b \<and> h1 = hw w)
         \<and> (did_hook D (b1\<lparr>p_inited := True\<rparr>) = None
              \<longrightarrow> r3 = None \<and> b3 = b1\<lparr>p_inited := True\<rparr> \<and> h3 = h2)"
proof -
  have a: "will_hook D (adopt b) = None \<longrightarrow> r1 = None \<and> b1 = adopt b \<and> h1 = hw w"
    using assms(1) by (auto simp: dispatch_def)
  have c: "did_hook D (b1\<lparr>p_inited := True\<rparr>) = None
              \<longrightarrow> r3 = None \<and> b3 = b1\<lparr>p_inited := True\<rparr> \<and> h3 = h2"
    using assms(3) by (auto simp: dispatch_def)
  have r1: "r1 \<noteq> None \<Longrightarrow> will_hook D (adopt b) \<noteq> None" using a by blast
  from init_unfold [OF assms(1,2,3) refl refl] assms(4)
  have "(r, b', hw w', new_events w w') =
           (if r1 \<noteq> None then (r1, b1, h1, [Call Will_connect r1])
            else if r2 \<noteq> None
              then (r2, b1, h2,
                    (if will_hook D (adopt b) = None then [] else [Call Will_connect None])
                    @ [Call Target_init r2])
            else (r3, b3, h3,
                  (if will_hook D (adopt b) = None then [] else [Call Will_connect None])
                  @ [Call Target_init None]
                  @ (if did_hook D (b1\<lparr>p_inited := True\<rparr>) = None then []
                     else [Call Did_connect r3])))"
    using r1 by (auto simp: new_events_def split: if_splits)
  with a c show ?thesis by blast
qed

theorem init_hook_order_witness:
  "dispatch (will_hook sample_delegates (adopt (hooked_board steady_target 0)))
      (adopt (hooked_board steady_target 0)) (hw fresh_world)
     = (None, hooked_board steady_target 0, 10)
   \<and> t_init (target (hooked_board steady_target 0)) 10 = (None, 11)
   \<and> dispatch (did_hook sample_delegates ((hooked_board steady_target 0)\<lparr>p_inited := True\<rparr>))
        ((hooked_board steady_target 0)\<lparr>p_inited := True\<rparr>) 11
      = (None, (hooked_board steady_target 0)\<lparr>p_inited := True\<rparr>, 22)
   \<and> init sample_delegates (hooked_board steady_target 0) fresh_world =
       (None, (hooked_board steady_target 0)\<lparr>p_inited := True\<rparr>,
        \<lparr>TARGET = builtin_targets, hw = 22,
         trace = [Call Will_connect None, Call Target_init None, Call Did_connect None]\<rparr>)
   \<and> new_events fresh_world
        \<lparr>TARGET = builtin_targets, hw = 22,
         trace = [Call Will_connect None, Call Target_init None, Call Did_connect None]\<rparr>
      = [Call Will_connect None, Call Target_init None, Call Did_connect None]"
proof -
  let ?b = "hooked_board steady_target 0"
  let ?W = "\<lparr>TARGET = builtin_targets, hw = 22::nat,
         trace = [Call Will_connect None, Call Target_init None, Call Did_connect None]\<rparr>"
  have h1: "dispatch (will_hook sample_delegates (adopt ?b)) (adopt ?b) (hw fresh_world)
              = (None, ?b, 10)"
    by (simp add: hook_defs fixture_defs)
  have h2: "t_init (target ?b) 10 = (None, 11)"
    by (simp add: fixture_defs)
  have h3: "dispatch (did_hook sample_delegates (?b\<lparr>p_inited := True\<rparr>)) (?b\<lparr>p_inited := True\<rparr>) 11
              = (None, ?b\<lparr>p_inited := True\<rparr>, 22)"
    by (simp add: hook_defs fixture_defs)
  have i: "init sample_delegates ?b fresh_world = (None, ?b\<lparr>p_inited := True\<rparr>, ?W)"
    by (simp add: init_def Let_def call_hook_def call_def emit_def hook_defs fixture_defs)
  have wh: "will_hook sample_delegates (adopt ?b) \<noteq> None"
           "did_hook sample_delegates (?b\<lparr>p_inited := True\<rparr>) \<noteq> None"
    by (simp_all add: hook_defs fixture_defs)
  from init_hook_order [OF h1 h2 h3 i] wh
  have "new_events fresh_world ?W
          = [Call Will_connect None, Call Target_init None, Call Did_connect None]"
    by simp
  with h1 h2 h3 i show ?thesis by simp
qed

text \<open>
  C7. For every initialised board, if the target's disconnect raises during uninit(),
  uninit() returns without an exception, and what it did is: the debug record, the call
  of disconnect (with the resume_on_disconnect option, true by default), and one error
  record of the failure.
\<close>

theorem uninit_swallows_disconnect_error:
  assumes "p_inited b"
    and "resume = (case options (session b) ''resume_on_disconnect'' of
                     None \<Rightarrow> PBool True | Some v \<Rightarrow> v)"
    and "fst (t_disconnect (target b) resume (hw w)) = Some e"
  shows "fst (uninit b w) = None \<and>
     new_events w (snd (snd (uninit b w))) =
       [Log DEBUG ''uninit board %s'' None, Call (Disconnect resume) (Some e),
        Log ERROR ''link exception during target disconnect:''
          (if log_tracebacks (session b) then Some e else None)]"
  using assms
  by (auto simp: uninit_def uninit_try_def call_def emit_def new_events_def session_def Let_def
      split: prod.splits option.splits)

theorem uninit_swallows_disconnect_error_witness:
  "p_inited (sample_board stuck_target True) \<and>
   fst (t_disconnect (target (sample_board stuck_target True)) (PBool True) (hw fresh_world))
     = Some (OtherError ''link lost'') \<and>
   fst (uninit (sample_board stuck_target True) fresh_world) = None \<and>
   new_events fresh_world (snd (snd (uninit (sample_board stuck_target True) fresh_world))) =
     [Log DEBUG ''uninit board %s'' None,
      Call (Disconnect (PBool True)) (Some (OtherError ''link lost'')),
      Log ERROR ''link exception during target disconnect:'' None]"
  using uninit_swallows_disconnect_error
    [of "sample_board stuck_target True" "PBool True" fresh_world "OtherError ''link lost''"]
  by (simp add: sample_board_def stuck_target_def fresh_world_def session_def plain_session_def)

text \<open>
  C8. Calling uninit() while the lifecycle flag is false invokes no target operation,
  raises no error and leaves the board unchanged: the call returns without an
  exception, with the same board, the same hardware state, registry and trace.
\<close>

theorem uninit_not_inited_noop:
  "\<not> p_inited b \<Longrightarrow> uninit b w = (None, b, w)"
  by (simp add: uninit_def)

theorem uninit_not_inited_noop_witness:
  "\<not> p_inited (sample_board steady_target False) \<and>
   uninit (sample_board steady_target False) fresh_world
     = (None, sample_board steady_target False, fresh_world)"
  using uninit_not_inited_noop [of "sample_board steady_target False" fresh_world]
  by (simp add: sample_board_def)

text \<open>
  C9. For every initialised board, if the target's disconnect raises during uninit(),
  the flag is still true when uninit() has returned, and a further uninit() calls
  disconnect again.
\<close>

theorem failed_disconnect_keeps_flag:
  assumes "p_inited b" and "uninit b w = (r, b', w')"
    and "Call (Disconnect v) (Some e) \<in> set (new_events w w')"
  shows "p_inited b' \<and>
    (\<exists>r2. Call (Disconnect v) r2 \<in> set (new_events w' (snd (snd (uninit b' w')))))"
proof -
  from uninit_shape [OF assms(1,2) refl] assms(3)
  have same: "b' = b"
    and v: "v = (case options (session b) ''resume_on_disconnect'' of
                   None \<Rightarrow> PBool True | Some v \<Rightarrow> v)"
    by auto
  obtain r2 b2 w2 where u2: "uninit b w' = (r2, b2, w2)"
    by (cases "uninit b w'") auto
  from uninit_shape [OF assms(1) u2 v]
  have "\<exists>x. Call (Disconnect v) x \<in> set (new_events w' w2)" by auto
  then show ?thesis using same assms(1) u2 by simp
qed

theorem failed_disconnect_keeps_flag_witness:
  "p_inited (sample_board stuck_target True) \<and>
   uninit (sample_board stuck_target True) fresh_world =
     (None, sample_board stuck_target True,
      \<lparr>TARGET = builtin_targets, hw = 1,
       trace = [Log DEBUG ''uninit board %s'' None,
                Call (Disconnect (PBool True)) (Some (OtherError ''link lost'')),
                Log ERROR ''link exception during target disconnect:'' None]\<rparr>) \<and>
   (\<exists>r2. Call (Disconnect (PBool True)) r2 \<in> set (new_events
       \<lparr>TARGET = builtin_targets, hw = 1,
       trace = [Log DEBUG ''uninit board %s'' None,
                Call (Disconnect (PBool True)) (Some (OtherError ''link lost'')),
                Log ERROR ''link exception during target disconnect:'' None]\<rparr>
      (snd (snd (uninit (sample_board stuck_target True) 
       \<lparr>TARGET = builtin_targets, hw = 1,
       trace = [Log DEBUG ''uninit board %s'' None,
                Call (Disconnect (PBool True)) (Some (OtherError ''link lost'')),
                Log ERROR ''link exception during target disconnect:'' None]\<rparr>)))))"
proof -
  let ?b = "sample_board stuck_target True"
  let ?w' = "\<lparr>TARGET = builtin_targets, hw = 1::nat,
       trace = [Log DEBUG ''uninit board %s'' None,
                Call (Disconnect (PBool True)) (Some (OtherError ''link lost'')),
                Log ERROR ''link exception during target disconnect:'' None]\<rparr>"
  have h1: "p_inited ?b" by (simp add: sample_board_def)
  have h2: "uninit ?b fresh_world = (None, ?b, ?w')"
    by (simp add: uninit_def uninit_try_def call_def emit_def sample_board_def stuck_target_def
        fresh_world_def session_def plain_session_def)
  have h3: "Call (Disconnect (PBool True)) (Some (OtherError ''link lost''))
              \<in> set (new_events fresh_world ?w')"
    by (simp add: new_events_def fresh_world_def)
  from failed_disconnect_keeps_flag [OF h1 h2 h3] h1 h2 show ?thesis by simp
qed

text \<open>
  C10 (as amended). For every call of init() in which the target's init returned and the
  delegate's did_connect raised, the exception of the hook leaves init(); the flag had
  been set before the hook was called, so the hook was handed a board with the flag
  true, and init() returns the board as the hook left it: with the flag true whenever
  the hooks leave the flag as they find it.
\<close>

theorem did_connect_failure_leaves_ready:
  assumes "init D b w = (r, b', w')"
    and "Call Target_init None \<in> set (new_events w w')"
    and "Call Did_connect (Some e) \<in> set (new_events w w')"
  shows "r = Some e
       \<and> (\<exists>g bq s. did_hook D bq = Some g \<and> p_inited bq \<and> g bq s = (Some e, b', hw w'))
       \<and> (hooks_keep_flag D \<longrightarrow> p_inited b')"
proof -
  obtain r1 b1 h1 where d1: "dispatch (will_hook D (adopt b)) (adopt b) (hw w) = (r1, b1, h1)"
    by (cases "dispatch (will_hook D (adopt b)) (adopt b) (hw w)") auto
  obtain r2 h2 where t: "t_init (target b1) h1 = (r2, h2)"
    by (cases "t_init (target b1) h1") auto
  define bT where "bT = b1\<lparr>p_inited := True\<rparr>"
  obtain r3 b3 h3 where d2: "dispatch (did_hook D bT) bT h2 = (r3, b3, h3)"
    by (cases "dispatch (did_hook D bT) bT h2") auto
  from init_unfold [OF d1 t d2 [unfolded bT_def] refl refl] assms
  have k: "r1 = None" "r2 = None" "did_hook D bT \<noteq> None" "r3 = Some e" "r = r3" "b' = b3" "hw w' = h3"
    by (auto simp: new_events_def bT_def split: if_splits)
  then obtain g where g: "did_hook D bT = Some g" by blast
  have gg: "g bT h2 = (Some e, b', hw w')" using d2 g k by (simp add: dispatch_def)
  have pT: "p_inited bT" by (simp add: bT_def)
  have kf: "hooks_keep_flag D \<longrightarrow> p_inited b'"
  proof
    assume hk: "hooks_keep_flag D"
    from g obtain d where "did_connect (D d) = Some g"
      by (auto simp: did_hook_def split: option.splits)
    with hk have "keeps_flag g" by (auto simp: hooks_keep_flag_def)
    then have "p_inited (fst (snd (g bT h2))) = p_inited bT" by (simp add: keeps_flag_def)
    with gg pT show "p_inited b'" by simp
  qed
  from k g gg pT kf show ?thesis by blast
qed

theorem did_connect_failure_leaves_ready_witness:
  "init tame_delegates (hooked_board steady_target 1) fresh_world =
     (Some (OtherError ''hook failed''), (hooked_board steady_target 1)\<lparr>p_inited := True\<rparr>,
      \<lparr>TARGET = builtin_targets, hw = 1,
       trace = [Call Target_init None, Call Did_connect (Some (OtherError ''hook failed''))]\<rparr>)
   \<and> hooks_keep_flag tame_delegates
   \<and> p_inited ((hooked_board steady_target 1)\<lparr>p_inited := True\<rparr>)"
proof -
  let ?b = "hooked_board steady_target 1"
  let ?W = "\<lparr>TARGET = builtin_targets, hw = 1::nat,
       trace = [Call Target_init None, Call Did_connect (Some (OtherError ''hook failed''))]\<rparr>"
  have i: "init tame_delegates ?b fresh_world
             = (Some (OtherError ''hook failed''), ?b\<lparr>p_inited := True\<rparr>, ?W)"
    by (simp add: init_def Let_def call_hook_def call_def emit_def hook_defs fixture_defs)
  have e1: "Call Target_init None \<in> set (new_events fresh_world ?W)"
    by (simp add: new_events_def fresh_world_def)
  have e2: "Call Did_connect (Some (OtherError ''hook failed'')) \<in> set (new_events fresh_world ?W)"
    by (simp add: new_events_def fresh_world_def)
  from did_connect_failure_leaves_ready [OF i e1 e2] tame_keep_flag i
  show ?thesis by simp
qed

text \<open>
  C10 as stated fails: a did_connect hook that calls uninit() on the board it is
  handed and then raises leaves the flag false, although the target's init returned
  and init() surfaces the exception of the hook.
\<close>

theorem did_connect_detaches_counterexample:
  "fst (init sample_delegates (hooked_board steady_target 2) fresh_world)
     = Some (OtherError ''hook failed'')
   \<and> new_events fresh_world (snd (snd (init sample_delegates (hooked_board steady_target 2) fresh_world)))
     = [Call Target_init None, Call Did_connect (Some (OtherError ''hook failed''))]
   \<and> \<not> p_inited (fst (snd (init sample_delegates (hooked_board steady_target 2) fresh_world)))"
  by (simp add: init_def Let_def call_hook_def call_def emit_def new_events_def
      uninit_def uninit_try_def hook_defs fixture_defs)

end
